theory Spec2Isabelle
  imports Complex_Main "HOL-Library.Sublist"
begin

section \<open>Data model\<close>

text \<open>
  A TypeScript \<open>number\<close> is modelled as an exact rational: the component only compares such
  values and takes minima and maxima of them, which is exact on the finite values of
  binary64, and the form can hold fractional values (a number input accepts \<open>1.5\<close>; prices
  are fractions of a dollar). The one arithmetic operation that rounds, the product of the
  cost estimate, is not computed on rationals: it is a parameter there. \<open>NaN\<close> and the
  infinities are outside the model.

  A JavaScript string is a sequence of UTF-16 code units; a code unit is a natural number
  (below 65536, a bound the development never needs). \<open>js\<close> turns an ASCII literal into
  such a sequence.
\<close>

type_synonym number = rat

type_synonym jsstring = "nat list"

definition js :: "string \<Rightarrow> jsstring" where
  "js cs = map of_char cs"

datatype File = File (file_name: jsstring)

text \<open>
  Modelled from the spec: the declaration of \<open>VideoProvider\<close> lives in
  \<open>lib/video-providers\<close>, which is not among the sources. The records below hold the
  fields that the component reads from a provider (section 3 of the specification:
  identifier, display name, description, feature tags, pricing, maximum duration, supported
  aspect ratios and the capability set).
\<close>

record Pricing =
  costPerSecond :: number
  freeTier :: "jsstring option"

record Capabilities =
  supportsMultipleVideos :: bool
  maxVideos :: number
  supportsConditioningImage :: bool
  supportsNegativePrompt :: bool
  supportedDurations :: "number list"
  supportsResolution :: bool
  supportedResolutions :: "jsstring list"
  supportsFPS :: bool
  supportedFPS :: "number list"

record VideoProvider =
  provider_id :: jsstring
  provider_name :: jsstring
  description :: jsstring
  features :: "jsstring list"
  pricing :: Pricing
  maxDuration :: number
  supportedAspectRatios :: "jsstring list"
  capabilities :: Capabilities

text \<open>The interface \<open>GenerationMeta\<close>; an optional field is an \<open>option\<close>.\<close>

record GenerationMeta =
  meta_provider :: jsstring
  meta_cost :: "number option"
  meta_startedAt :: "number option"
  meta_completedAt :: "number option"
  meta_error :: "jsstring option"

text \<open>The \<open>useState\<close> cells of the component \<open>VideoGenerator\<close>, in the order of the source.\<close>

record VideoGenerator =
  provider :: jsstring
  prompt :: jsstring
  negativePrompt :: jsstring
  numberOfVideos :: number
  aspectRatio :: jsstring
  durationSeconds :: number
  conditioningImage :: "File option"
  veo3Model :: jsstring
  veo3Resolution :: jsstring
  veo3Audio :: bool
  isGenerating :: bool
  message :: jsstring
  videos :: "jsstring list"
  generationMeta :: "GenerationMeta option"
  copiedVideoUrl :: "jsstring option"

text \<open>The initial values of the cells; \<open>pid\<close> is \<open>providers[0]?.id ?? 'veo-3'\<close>.\<close>

definition initialProvider :: "VideoProvider list \<Rightarrow> jsstring" where
  "initialProvider providers = (case providers of [] \<Rightarrow> js ''veo-3'' | p # _ \<Rightarrow> provider_id p)"

definition initialState :: "jsstring \<Rightarrow> VideoGenerator" where
  "initialState pid =
     \<lparr>provider = pid, prompt = [], negativePrompt = [], numberOfVideos = 1,
      aspectRatio = js ''16:9'', durationSeconds = 5, conditioningImage = None,
      veo3Model = js ''veo3-fast'', veo3Resolution = js ''720p'', veo3Audio = True,
      isGenerating = False, message = [], videos = [], generationMeta = None,
      copiedVideoUrl = None\<rparr>"

section \<open>Provider selection and the reconciliation effect\<close>

text \<open>\<open>providers.find((p) => p.id === provider)\<close>: the first provider with that id, if any.\<close>

definition selectedProvider :: "VideoProvider list \<Rightarrow> jsstring \<Rightarrow> VideoProvider option" where
  "selectedProvider providers pid = find (\<lambda>p. provider_id p = pid) providers"

text \<open>\<open>x || d\<close> on numbers: the only falsy number of the model is \<open>0\<close>.\<close>

definition number_or :: "number \<Rightarrow> number \<Rightarrow> number" where
  "number_or x d = (if x = 0 then d else x)"

text \<open>The five functional updates of the effect, each a function of the previous value.\<close>

definition reconcileNumberOfVideos :: "VideoProvider \<Rightarrow> number \<Rightarrow> number" where
  "reconcileNumberOfVideos P prev =
     (if \<not> supportsMultipleVideos (capabilities P) then 1
      else min (max 1 prev) (number_or (maxVideos (capabilities P)) 1))"

definition reconcileConditioningImage :: "VideoProvider \<Rightarrow> File option \<Rightarrow> File option" where
  "reconcileConditioningImage P prev =
     (if supportsConditioningImage (capabilities P) then prev else None)"

definition reconcileNegativePrompt :: "VideoProvider \<Rightarrow> jsstring \<Rightarrow> jsstring" where
  "reconcileNegativePrompt P prev =
     (if supportsNegativePrompt (capabilities P) then prev else [])"

text \<open>\<open>supportedAspectRatios[0] ?? '16:9'\<close>: the first element, or the default on an empty list.\<close>

definition reconcileAspectRatio :: "VideoProvider \<Rightarrow> jsstring \<Rightarrow> jsstring" where
  "reconcileAspectRatio P prev =
     (if prev \<in> set (supportedAspectRatios P) then prev
      else (case supportedAspectRatios P of [] \<Rightarrow> js ''16:9'' | r # _ \<Rightarrow> r))"

text \<open>\<open>allowedDurations[0]\<close> is read only under \<open>allowedDurations.length > 0\<close>.\<close>

definition reconcileDurationSeconds :: "VideoProvider \<Rightarrow> number \<Rightarrow> number" where
  "reconcileDurationSeconds P prev =
     (let allowedDurations = supportedDurations (capabilities P)
      in if length allowedDurations > 0 \<and> prev \<notin> set allowedDurations
         then hd allowedDurations
         else min prev (maxDuration P))"

text \<open>
  The effect itself: nothing happens without a selected provider; otherwise the five
  setters run, each on its own cell.
\<close>

definition reconcile :: "VideoProvider option \<Rightarrow> VideoGenerator \<Rightarrow> VideoGenerator" where
  "reconcile sp s =
     (case sp of
        None \<Rightarrow> s
      | Some P \<Rightarrow>
          s\<lparr>numberOfVideos := reconcileNumberOfVideos P (numberOfVideos s),
            conditioningImage := reconcileConditioningImage P (conditioningImage s),
            negativePrompt := reconcileNegativePrompt P (negativePrompt s),
            aspectRatio := reconcileAspectRatio P (aspectRatio s),
            durationSeconds := reconcileDurationSeconds P (durationSeconds s)\<rparr>)"

text \<open>
  A provider descriptor is coherent in its durations when every discrete duration it
  declares is within its maximum duration.
\<close>

definition durationsWithinMaximum :: "VideoProvider \<Rightarrow> bool" where
  "durationsWithinMaximum P =
     list_all (\<lambda>d. d \<le> maxDuration P) (supportedDurations (capabilities P))"

section \<open>Cost estimate\<close>

text \<open>
  Modelled from the spec: \<open>calculateCost\<close> is imported from \<open>lib/video-providers\<close>, which
  is not among the sources. Section 4.2 of the specification:
  \<open>estimate(provider, durationSeconds) = provider.costPerSecond \<times> durationSeconds\<close>.
\<close>

text \<open>
  The product \<open>a * b\<close> of two numbers is the platform's: IEEE 754 binary64, the exact
  product rounded to the nearest representable value (\<open>0.1 * 3\<close> is
  \<open>0.30000000000000004\<close>). It is the parameter \<open>mul\<close> of the definitions below, and
  nothing is assumed about it. \<open>Math.max\<close> does not round.
\<close>

definition calculateCost ::
  "(number \<Rightarrow> number \<Rightarrow> number) \<Rightarrow> VideoProvider \<Rightarrow> number \<Rightarrow> number"
where
  "calculateCost mul P seconds = mul (costPerSecond (pricing P)) seconds"

definition estimatedCostPerVideo ::
  "(number \<Rightarrow> number \<Rightarrow> number) \<Rightarrow> VideoProvider option \<Rightarrow> number \<Rightarrow> number"
where
  "estimatedCostPerVideo mul sp seconds =
     (case sp of None \<Rightarrow> 0 | Some P \<Rightarrow> calculateCost mul P seconds)"

definition estimatedTotalCost ::
  "(number \<Rightarrow> number \<Rightarrow> number) \<Rightarrow> VideoProvider option \<Rightarrow> number \<Rightarrow> number \<Rightarrow> number"
where
  "estimatedTotalCost mul sp seconds n =
     mul (estimatedCostPerVideo mul sp seconds) (max 1 n)"

section \<open>Prompt insights\<close>

text \<open>
  The code units that \<open>String.prototype.trim\<close> strips and that \<open>\s\<close> matches: tab, line
  feed, vertical tab, form feed, carriage return, space, no-break space, U+1680,
  U+2000 to U+200A, U+2028, U+2029, U+202F, U+205F, U+3000 and U+FEFF.
\<close>

definition is_space :: "nat \<Rightarrow> bool" where
  "is_space c =
     (c \<in> set [0x09, 0x0A, 0x0B, 0x0C, 0x0D, 0x20, 0xA0, 0x1680, 0x2028, 0x2029, 0x202F,
               0x205F, 0x3000, 0xFEFF]
      \<or> (0x2000 \<le> c \<and> c \<le> 0x200A))"

definition trim :: "jsstring \<Rightarrow> jsstring" where
  "trim s = rev (dropWhile is_space (rev (dropWhile is_space s)))"

text \<open>
  \<open>s.split(/\s+/)\<close>: the pieces between the maximal runs of whitespace. A run at the very
  start or end leaves an empty piece there, and a string without whitespace (the empty
  string too) is its own single piece.
\<close>

function splitWhitespace :: "jsstring \<Rightarrow> jsstring list" where
  "splitWhitespace s =
     (case dropWhile (\<lambda>c. \<not> is_space c) s of
        [] \<Rightarrow> [s]
      | _ # rest \<Rightarrow>
          takeWhile (\<lambda>c. \<not> is_space c) s # splitWhitespace (dropWhile is_space rest))"
  by pat_completeness auto

termination
proof (relation "measure length")
  show "wf (measure length)" by simp
next
  fix s :: jsstring and x rest
  assume "dropWhile (\<lambda>c. \<not> is_space c) s = x # rest"
  then have "length rest < length (dropWhile (\<lambda>c. \<not> is_space c) s)" by simp
  also have "\<dots> \<le> length s" by (rule length_dropWhile_le)
  finally have "length rest < length s" .
  moreover have "length (dropWhile is_space rest) \<le> length rest" by (rule length_dropWhile_le)
  ultimately show "(dropWhile is_space rest, s) \<in> measure length" by simp
qed

declare splitWhitespace.simps [simp del]

record PromptInsights =
  words :: nat
  quality :: jsstring
  helper :: jsstring
  badgeClass :: jsstring
  score :: nat

text \<open>\<open>trimmed ? trimmed.split(/\s+/).filter(Boolean).length : 0\<close>; only the empty string is falsy.\<close>

definition countWords :: "jsstring \<Rightarrow> nat" where
  "countWords p =
     (let trimmed = trim p
      in if trimmed \<noteq> [] then length (filter (\<lambda>w. w \<noteq> []) (splitWhitespace trimmed)) else 0)"

definition promptInsights :: "jsstring \<Rightarrow> PromptInsights" where
  "promptInsights p =
     (let n = countWords p
      in if n = 0 then
           \<lparr>words = n, quality = js ''Add a descriptive prompt'',
            helper = js ''Describe the subject, setting, and motion you expect.'',
            badgeClass = js ''bg-red-900/30 text-red-300 border border-red-600/30'',
            score = 0\<rparr>
         else if n < 12 then
           \<lparr>words = n, quality = js ''Needs more detail'',
            helper = js ''Aim for at least 12 words so providers have enough context.'',
            badgeClass = js ''bg-yellow-900/30 text-yellow-300 border border-yellow-600/30'',
            score = 1\<rparr>
         else if n < 30 then
           \<lparr>words = n, quality = js ''Great start'',
            helper = js ''Add camera cues or mood to push it even further.'',
            badgeClass = js ''bg-blue-900/30 text-blue-200 border border-blue-600/30'',
            score = 2\<rparr>
         else
           \<lparr>words = n, quality = js ''Production ready'',
            helper = js ''Plenty of detail. You can generate with confidence.'',
            badgeClass = js ''bg-green-900/30 text-green-200 border border-green-600/30'',
            score = 3\<rparr>)"

text \<open>
  The specification's reading of the word count, stated on the prompt itself: the number
  of maximal runs of code units that are not whitespace. The flag says whether the
  previous code unit belongs to a word.
\<close>

fun wordRuns :: "bool \<Rightarrow> jsstring \<Rightarrow> nat" where
  "wordRuns inWord [] = 0"
| "wordRuns inWord (c # cs) =
     (if is_space c then wordRuns False cs
      else (if inWord then 0 else 1) + wordRuns True cs)"

section \<open>The generation request\<close>

text \<open>
  A value appended to the \<open>FormData\<close>: a string, the decimal string of a number
  (\<open>n.toString()\<close>, kept as the number it denotes) or a file.
\<close>

datatype FormValue = StringValue jsstring | NumberString number | FileValue File

type_synonym FormData = "(jsstring \<times> FormValue) list"

definition boolToString :: "bool \<Rightarrow> jsstring" where
  "boolToString b = (if b then js ''true'' else js ''false'')"

text \<open>The entries, in the order in which \<open>handleGenerate\<close> appends them.\<close>

definition buildFormData :: "VideoGenerator \<Rightarrow> FormData" where
  "buildFormData s =
     [(js ''prompt'', StringValue (prompt s)),
      (js ''negativePrompt'', StringValue (negativePrompt s)),
      (js ''numberOfVideos'', NumberString (numberOfVideos s)),
      (js ''aspectRatio'', StringValue (aspectRatio s)),
      (js ''durationSeconds'', NumberString (durationSeconds s)),
      (js ''provider'', StringValue (provider s))]
     @ (if provider s = js ''veo-3''
        then [(js ''veo3Model'', StringValue (veo3Model s)),
              (js ''veo3Resolution'', StringValue (veo3Resolution s)),
              (js ''veo3Audio'', StringValue (boolToString (veo3Audio s)))]
        else [])
     @ (case conditioningImage s of
          None \<Rightarrow> []
        | Some file \<Rightarrow> [(js ''conditioningImage'', FileValue file)])"

text \<open>
  What the environment answers. A thrown value is an \<open>Error\<close> with its message or
  something else. \<open>fetch\<close> rejects or resolves to a response with a status; reading the
  body as JSON throws, yields \<open>null\<close> (reading a property of it throws a \<open>TypeError\<close>, whose
  message is the engine's), or yields a value of which the handler reads three optional
  properties.
\<close>

datatype Thrown = ErrorObject jsstring | OtherValue

record GenerationResult =
  result_videos :: "jsstring list option"
  result_provider :: "jsstring option"
  result_cost :: "number option"

datatype ResponseBody = BodyUnreadable Thrown | BodyNull jsstring | BodyValue GenerationResult

datatype FetchOutcome = FetchRejects Thrown | Response (status: nat) (body: ResponseBody)

text \<open>\<open>response.ok\<close>: the status is in the range 200 to 299.\<close>

definition response_ok :: "nat \<Rightarrow> bool" where
  "response_ok st = (200 \<le> st \<and> st \<le> 299)"

text \<open>The \<open>try\<close> block from the answer on: either a value is thrown or the result is read.\<close>

definition readResponse :: "FetchOutcome \<Rightarrow> Thrown + GenerationResult" where
  "readResponse outcome =
     (case outcome of
        FetchRejects t \<Rightarrow> Inl t
      | Response st b \<Rightarrow>
          if \<not> response_ok st then Inl (ErrorObject (js ''Failed to generate video''))
          else (case b of
                  BodyUnreadable t \<Rightarrow> Inl t
                | BodyNull m \<Rightarrow> Inl (ErrorObject m)
                | BodyValue r \<Rightarrow> Inr r))"

text \<open>\<open>error instanceof Error ? error.message : 'Unknown error'\<close>.\<close>

definition errorMessage :: "Thrown \<Rightarrow> jsstring" where
  "errorMessage t = (case t of ErrorObject m \<Rightarrow> m | OtherValue \<Rightarrow> js ''Unknown error'')"

text \<open>Truthiness of an optional number and of an optional string.\<close>

definition truthyNumber :: "number option \<Rightarrow> bool" where
  "truthyNumber x = (case x of None \<Rightarrow> False | Some n \<Rightarrow> n \<noteq> 0)"

definition truthyString :: "jsstring option \<Rightarrow> bool" where
  "truthyString x = (case x of None \<Rightarrow> False | Some t \<Rightarrow> t \<noteq> [])"

text \<open>
  The success message. \<open>formatCurrency\<close> is \<open>Intl.NumberFormat\<close> of the platform and is a
  parameter here; the separator is U+2022 between two spaces.
\<close>

definition successMessage :: "(number \<Rightarrow> jsstring) \<Rightarrow> number option \<Rightarrow> jsstring" where
  "successMessage formatCurrency c =
     (if truthyNumber c
      then js ''Video generated successfully '' @ [0x2022] @ js '' '' @ formatCurrency (the c)
      else js ''Video generated successfully!'')"

text \<open>
  What a call of \<open>handleGenerate\<close> keeps in its closure across the \<open>await\<close>: the provider id
  and the start time; and the request it has sent.
\<close>

record Submission =
  sub_provider :: jsstring
  sub_startedAt :: number
  sub_request :: FormData

datatype Started = Rejected VideoGenerator | Submitted VideoGenerator Submission

text \<open>The synchronous part, up to the \<open>fetch\<close>; \<open>now\<close> is \<open>Date.now()\<close>.\<close>

definition handleGenerate_start :: "VideoGenerator \<Rightarrow> number \<Rightarrow> Started" where
  "handleGenerate_start s now =
     (if trim (prompt s) = [] then
        Rejected (s\<lparr>message := js ''Please enter a prompt before generating.''\<rparr>)
      else
        Submitted
          (s\<lparr>isGenerating := True,
             message := js ''Generating...'',
             videos := [],
             generationMeta :=
               Some \<lparr>meta_provider = provider s, meta_cost = None, meta_startedAt = Some now,
                     meta_completedAt = None, meta_error = None\<rparr>\<rparr>)
          \<lparr>sub_provider = provider s, sub_startedAt = now, sub_request = buildFormData s\<rparr>)"

text \<open>
  The part after the \<open>await\<close>, on the state \<open>s\<close> of that moment: the success branch or the
  \<open>catch\<close> branch, then \<open>finally\<close>. \<open>now\<close> is the second \<open>Date.now()\<close>.
\<close>

definition handleGenerate_finish ::
  "(number \<Rightarrow> jsstring) \<Rightarrow> Submission \<Rightarrow> FetchOutcome \<Rightarrow> number \<Rightarrow> VideoGenerator \<Rightarrow> VideoGenerator"
where
  "handleGenerate_finish formatCurrency sub outcome now s =
     (case readResponse outcome of
        Inr result \<Rightarrow>
          s\<lparr>videos := (case result_videos result of None \<Rightarrow> [] | Some vs \<Rightarrow> vs),
            generationMeta :=
              Some \<lparr>meta_provider =
                      (if truthyString (result_provider result) then the (result_provider result)
                       else sub_provider sub),
                    meta_cost = result_cost result,
                    meta_startedAt = Some (sub_startedAt sub),
                    meta_completedAt = Some now,
                    meta_error = None\<rparr>,
            message := successMessage formatCurrency (result_cost result),
            isGenerating := False\<rparr>
      | Inl thrown \<Rightarrow>
          s\<lparr>generationMeta :=
              Some \<lparr>meta_provider = sub_provider sub,
                    meta_cost = None,
                    meta_startedAt = Some (sub_startedAt sub),
                    meta_completedAt = Some now,
                    meta_error = Some (errorMessage thrown)\<rparr>,
            message := js ''Failed to generate video. Please try again.'',
            isGenerating := False\<rparr>)"

text \<open>
  A whole call with nothing else happening in between: the final state and the requests
  that were sent.
\<close>

definition handleGenerate ::
  "(number \<Rightarrow> jsstring) \<Rightarrow> VideoGenerator \<Rightarrow> number \<Rightarrow> FetchOutcome \<Rightarrow> number
     \<Rightarrow> VideoGenerator \<times> FormData list"
where
  "handleGenerate formatCurrency s startedAt outcome completedAt =
     (case handleGenerate_start s startedAt of
        Rejected s' \<Rightarrow> (s', [])
      | Submitted s' sub \<Rightarrow>
          (handleGenerate_finish formatCurrency sub outcome completedAt s', [sub_request sub]))"

section \<open>The rendered cost line\<close>

text \<open>
  A JSX child \<open>{x && <e/>}\<close> for an optional number \<open>x\<close>: nothing for \<open>undefined\<close>, the
  number itself as text when it is falsy (React prints a \<open>0\<close>), the element otherwise.
\<close>

datatype 'a Rendered = Nothing | NumberText number | Element 'a

definition actualCostLine :: "(number \<Rightarrow> jsstring) \<Rightarrow> GenerationMeta \<Rightarrow> jsstring Rendered" where
  "actualCostLine formatCurrency m =
     (case meta_cost m of
        None \<Rightarrow> Nothing
      | Some c \<Rightarrow> if c = 0 then NumberText c else Element (js ''Actual cost: '' @ formatCurrency c))"

text \<open>
  The panel "Last generation" is under \<open>generationMeta?.completedAt && (...)\<close>; of its
  content, the cost line.
\<close>

definition lastGenerationCost ::
  "(number \<Rightarrow> jsstring) \<Rightarrow> GenerationMeta option \<Rightarrow> jsstring Rendered Rendered"
where
  "lastGenerationCost formatCurrency gm =
     (case gm of
        None \<Rightarrow> Nothing
      | Some m \<Rightarrow>
          (case meta_completedAt m of
             None \<Rightarrow> Nothing
           | Some t \<Rightarrow> if t = 0 then NumberText t else Element (actualCostLine formatCurrency m)))"

section \<open>The route middleware\<close>

text \<open>
  \<open>getCookieCache\<close> (of the library \<open>better-auth\<close>) is awaited first, outside any \<open>try\<close>:
  it throws, and then the whole call of \<open>proxy\<close> fails with the thrown value, or it yields
  a cached session or \<open>null\<close>. Of the session the middleware reads whether it has a user.
\<close>

record CookieCache =
  user :: "jsstring option"

datatype CookieRead = CookieReadThrows Thrown | CookieReadValue "CookieCache option"

datatype NextResponse = Next | Redirect jsstring

definition isLoggedIn :: "CookieCache option \<Rightarrow> bool" where
  "isLoggedIn session = (case session of None \<Rightarrow> False | Some c \<Rightarrow> user c \<noteq> None)"

text \<open>
  \<open>proxy\<close>, on the outcome of reading the cookie cache of the request and the path of its
  URL: the thrown value (\<open>Inl\<close>) or the response.
\<close>

definition proxy :: "CookieRead \<Rightarrow> jsstring \<Rightarrow> Thrown + NextResponse" where
  "proxy cookieRead pathname =
     (case cookieRead of
        CookieReadThrows t \<Rightarrow> Inl t
      | CookieReadValue session \<Rightarrow>
          Inr (if prefix (js ''/auth/'') pathname \<or> pathname = js ''/''
                  \<or> prefix (js ''/api/auth/'') pathname
               then Next
               else if prefix (js ''/api/generate-video'') pathname \<and> \<not> isLoggedIn session
               then Redirect (js ''/auth/signin'')
               else if \<not> isLoggedIn session
               then Redirect (js ''/auth/signin'')
               else Next))"

text \<open>The public allow-list as the specification words it: the root, the sign-in pages, the auth API.\<close>

definition publicPath :: "jsstring \<Rightarrow> bool" where
  "publicPath pathname =
     (pathname = js ''/'' \<or> prefix (js ''/auth/'') pathname \<or> prefix (js ''/api/auth/'') pathname)"

section \<open>Sample data\<close>

text \<open>
  The provider catalogue is not among the sources. The descriptor below is an instance of
  the record, used to run the theorems on concrete data. Its variants declare: a zero
  maximum count together with a discrete duration (10) beyond the maximum duration (8); no
  discrete durations; the single discrete duration 10.
\<close>

definition sampleProvider :: VideoProvider where
  "sampleProvider =
     \<lparr>provider_id = js ''veo-3'', provider_name = js ''Veo 3'', description = [],
      features = [js ''audio''],
      pricing = \<lparr>costPerSecond = 1 / 4, freeTier = None\<rparr>,
      maxDuration = 8,
      supportedAspectRatios = [js ''16:9'', js ''9:16''],
      capabilities =
        \<lparr>supportsMultipleVideos = True, maxVideos = 4, supportsConditioningImage = False,
         supportsNegativePrompt = True, supportedDurations = [4, 6, 8],
         supportsResolution = True, supportedResolutions = [js ''720p'', js ''1080p''],
         supportsFPS = False, supportedFPS = []\<rparr>\<rparr>"

definition zeroMaxVideosProvider :: VideoProvider where
  "zeroMaxVideosProvider =
     sampleProvider
       \<lparr>capabilities := (capabilities sampleProvider)\<lparr>maxVideos := 0, supportedDurations := [4, 10]\<rparr>\<rparr>"

definition openDurationProvider :: VideoProvider where
  "openDurationProvider =
     sampleProvider\<lparr>capabilities := (capabilities sampleProvider)\<lparr>supportedDurations := []\<rparr>\<rparr>"

definition longDurationProvider :: VideoProvider where
  "longDurationProvider =
     sampleProvider\<lparr>capabilities := (capabilities sampleProvider)\<lparr>supportedDurations := [10]\<rparr>\<rparr>"

definition sampleState :: VideoGenerator where
  "sampleState =
     (initialState (js ''veo-3''))
       \<lparr>prompt := js ''  a neon market  in the rain '', negativePrompt := js ''blur'',
        numberOfVideos := 7, aspectRatio := js ''1:1'', durationSeconds := 5,
        conditioningImage := Some (File (js ''ref.png''))\<rparr>"

definition tenSecondState :: VideoGenerator where
  "tenSecondState = sampleState\<lparr>durationSeconds := 10\<rparr>"

text \<open>A state with a prompt of spaces only, with videos and metadata of an earlier run.\<close>

definition blankPromptState :: VideoGenerator where
  "blankPromptState =
     sampleState
       \<lparr>prompt := js ''   '', videos := [js ''a.mp4''],
        generationMeta :=
          Some \<lparr>meta_provider = js ''veo-3'', meta_cost = Some 1, meta_startedAt = Some 10,
                meta_completedAt = Some 20, meta_error = None\<rparr>\<rparr>"

text \<open>Two parsed response bodies: one reports the cost 0, the other the cost 1.50.\<close>

definition zeroCostResult :: GenerationResult where
  "zeroCostResult =
     \<lparr>result_videos = Some [js ''a.mp4''], result_provider = None, result_cost = Some 0\<rparr>"

definition pricedResult :: GenerationResult where
  "pricedResult =
     \<lparr>result_videos = Some [js ''a.mp4'', js ''b.mp4''], result_provider = None,
      result_cost = Some (3 / 2)\<rparr>"

section \<open>Reconciliation: bounds, idempotence and frame\<close>

lemma reconcile_Some_fields:
  "numberOfVideos (reconcile (Some P) s) = reconcileNumberOfVideos P (numberOfVideos s)"
  "conditioningImage (reconcile (Some P) s) = reconcileConditioningImage P (conditioningImage s)"
  "negativePrompt (reconcile (Some P) s) = reconcileNegativePrompt P (negativePrompt s)"
  "aspectRatio (reconcile (Some P) s) = reconcileAspectRatio P (aspectRatio s)"
  "durationSeconds (reconcile (Some P) s) = reconcileDurationSeconds P (durationSeconds s)"
  by (simp_all add: reconcile_def)

lemma reconcileNumberOfVideos_single:
  "\<not> supportsMultipleVideos (capabilities P) \<Longrightarrow> reconcileNumberOfVideos P x = 1"
  by (simp add: reconcileNumberOfVideos_def)

lemma reconcileNumberOfVideos_range:
  assumes "supportsMultipleVideos (capabilities P)"
    and "1 \<le> number_or (maxVideos (capabilities P)) 1"
  shows "1 \<le> reconcileNumberOfVideos P x"
    and "reconcileNumberOfVideos P x \<le> number_or (maxVideos (capabilities P)) 1"
  using assms by (simp_all add: reconcileNumberOfVideos_def)

lemma reconcileAspectRatio_member:
  assumes "supportedAspectRatios P \<noteq> []"
  shows "reconcileAspectRatio P x \<in> set (supportedAspectRatios P)"
proof (cases "supportedAspectRatios P")
  case Nil
  with assms show ?thesis by simp
next
  case (Cons r rs)
  then show ?thesis by (simp add: reconcileAspectRatio_def)
qed

lemma reconcileDurationSeconds_declared:
  assumes "supportedDurations (capabilities P) \<noteq> []"
  shows "reconcileDurationSeconds P x \<in> set (supportedDurations (capabilities P))
         \<or> reconcileDurationSeconds P x = maxDuration P"
proof (cases "x \<in> set (supportedDurations (capabilities P))")
  case True
  then show ?thesis by (simp add: reconcileDurationSeconds_def Let_def min_def)
next
  case False
  with assms show ?thesis by (simp add: reconcileDurationSeconds_def Let_def)
qed

lemma reconcileDurationSeconds_member:
  assumes "supportedDurations (capabilities P) \<noteq> []" and "durationsWithinMaximum P"
  shows "reconcileDurationSeconds P x \<in> set (supportedDurations (capabilities P))"
proof (cases "x \<in> set (supportedDurations (capabilities P))")
  case True
  with assms(2) have "x \<le> maxDuration P"
    by (simp add: durationsWithinMaximum_def list_all_iff)
  with True show ?thesis by (simp add: reconcileDurationSeconds_def Let_def min_def)
next
  case False
  with assms(1) show ?thesis by (simp add: reconcileDurationSeconds_def Let_def)
qed

lemma reconcileDurationSeconds_open:
  assumes "supportedDurations (capabilities P) = []"
  shows "reconcileDurationSeconds P x = min x (maxDuration P)"
  using assms by (simp add: reconcileDurationSeconds_def)

text \<open>
  Claim C1, as stated, fails at one provider in two places. The provider supports multiple
  videos with the maximum count 0, and declares the discrete durations 4 and 10 with the
  maximum duration 8. The count becomes 1 (the fallback \<open>maxVideos || 1\<close>), which is not in
  the empty interval from 1 to 0. A prior duration of 10 is a declared one, so it is
  clamped to 8: the declared set is not empty, and 8 is not a member of it.
\<close>

theorem reconcile_outside_declared_bounds:
  "supportsMultipleVideos (capabilities zeroMaxVideosProvider)
   \<and> numberOfVideos (reconcile (Some zeroMaxVideosProvider) tenSecondState) = 1
   \<and> \<not> (1 \<le> numberOfVideos (reconcile (Some zeroMaxVideosProvider) tenSecondState)
         \<and> numberOfVideos (reconcile (Some zeroMaxVideosProvider) tenSecondState)
             \<le> maxVideos (capabilities zeroMaxVideosProvider))
   \<and> supportedDurations (capabilities zeroMaxVideosProvider) \<noteq> []
   \<and> durationSeconds (reconcile (Some zeroMaxVideosProvider) tenSecondState) = 8
   \<and> durationSeconds (reconcile (Some zeroMaxVideosProvider) tenSecondState)
       \<notin> set (supportedDurations (capabilities zeroMaxVideosProvider))"
  by (simp add: reconcile_Some_fields reconcileNumberOfVideos_def number_or_def
      reconcileDurationSeconds_def zeroMaxVideosProvider_def sampleProvider_def
      tenSecondState_def sampleState_def)

text \<open>
  Claim C1, amended. Let \<open>M\<close> be \<open>P.maxVideos\<close>, or 1 when \<open>P.maxVideos\<close> is 0. For every
  provider \<open>P\<close> and every prior form state, after reconciling against \<open>P\<close>:
  the video count is 1 when \<open>P\<close> does not support multiple videos, and lies between 1 and
  \<open>M\<close> when \<open>P\<close> supports them and \<open>M\<close> is at least 1;
  the aspect ratio is a member of \<open>P.supportedAspectRatios\<close> whenever that list is not
  empty;
  when \<open>P.supportedDurations\<close> is not empty, the duration is a member of it or equal to
  \<open>P.maxDuration\<close>, and it is a member whenever every declared duration is at most
  \<open>P.maxDuration\<close>; when \<open>P.supportedDurations\<close> is empty, the duration is the smaller of
  the prior duration and \<open>P.maxDuration\<close>, so at most \<open>P.maxDuration\<close>.
\<close>

theorem reconcile_within_bounds:
  "(\<not> supportsMultipleVideos (capabilities P)
      \<longrightarrow> numberOfVideos (reconcile (Some P) s) = 1)
   \<and> (supportsMultipleVideos (capabilities P) \<and> 1 \<le> number_or (maxVideos (capabilities P)) 1
      \<longrightarrow> 1 \<le> numberOfVideos (reconcile (Some P) s)
          \<and> numberOfVideos (reconcile (Some P) s) \<le> number_or (maxVideos (capabilities P)) 1)
   \<and> (supportedAspectRatios P \<noteq> []
      \<longrightarrow> aspectRatio (reconcile (Some P) s) \<in> set (supportedAspectRatios P))
   \<and> (supportedDurations (capabilities P) \<noteq> []
      \<longrightarrow> durationSeconds (reconcile (Some P) s) \<in> set (supportedDurations (capabilities P))
          \<or> durationSeconds (reconcile (Some P) s) = maxDuration P)
   \<and> (supportedDurations (capabilities P) \<noteq> [] \<and> durationsWithinMaximum P
      \<longrightarrow> durationSeconds (reconcile (Some P) s) \<in> set (supportedDurations (capabilities P)))
   \<and> (supportedDurations (capabilities P) = []
      \<longrightarrow> durationSeconds (reconcile (Some P) s) = min (durationSeconds s) (maxDuration P)
          \<and> durationSeconds (reconcile (Some P) s) \<le> maxDuration P)"
proof -
  have "supportedDurations (capabilities P) = []
      \<longrightarrow> reconcileDurationSeconds P (durationSeconds s) = min (durationSeconds s) (maxDuration P)
          \<and> reconcileDurationSeconds P (durationSeconds s) \<le> maxDuration P"
    by (simp add: reconcileDurationSeconds_open)
  then show ?thesis
    unfolding reconcile_Some_fields
    using reconcileNumberOfVideos_single [of P] reconcileNumberOfVideos_range [of P]
      reconcileAspectRatio_member [of P] reconcileDurationSeconds_declared [of P]
      reconcileDurationSeconds_member [of P]
    by blast
qed

lemma sampleProvider_reconciled:
  "numberOfVideos (reconcile (Some sampleProvider) sampleState) = 4"
  "aspectRatio (reconcile (Some sampleProvider) sampleState) = js ''16:9''"
  "durationSeconds (reconcile (Some sampleProvider) sampleState) = 4"
  "durationSeconds (reconcile (Some openDurationProvider) tenSecondState) = 8"
  by (simp_all add: reconcile_Some_fields reconcileNumberOfVideos_def number_or_def
      reconcileAspectRatio_def reconcileDurationSeconds_def openDurationProvider_def
      sampleProvider_def tenSecondState_def sampleState_def initialState_def js_def)

lemma sampleProvider_declares:
  "supportsMultipleVideos (capabilities sampleProvider)"
  "1 \<le> number_or (maxVideos (capabilities sampleProvider)) 1"
  "number_or (maxVideos (capabilities sampleProvider)) 1 = 4"
  "supportedAspectRatios sampleProvider \<noteq> []"
  "supportedDurations (capabilities sampleProvider) \<noteq> []"
  "durationsWithinMaximum sampleProvider"
  "supportedDurations (capabilities openDurationProvider) = []"
  "maxDuration openDurationProvider = 8"
  by (simp_all add: number_or_def durationsWithinMaximum_def openDurationProvider_def
      sampleProvider_def)

theorem reconcile_within_bounds_witness:
  "supportsMultipleVideos (capabilities sampleProvider)
   \<and> 1 \<le> number_or (maxVideos (capabilities sampleProvider)) 1
   \<and> supportedAspectRatios sampleProvider \<noteq> []
   \<and> supportedDurations (capabilities sampleProvider) \<noteq> []
   \<and> durationsWithinMaximum sampleProvider
   \<and> supportedDurations (capabilities openDurationProvider) = []
   \<and> numberOfVideos (reconcile (Some sampleProvider) sampleState) = 4
   \<and> 1 \<le> numberOfVideos (reconcile (Some sampleProvider) sampleState)
   \<and> numberOfVideos (reconcile (Some sampleProvider) sampleState) \<le> 4
   \<and> aspectRatio (reconcile (Some sampleProvider) sampleState) = js ''16:9''
   \<and> aspectRatio (reconcile (Some sampleProvider) sampleState)
       \<in> set (supportedAspectRatios sampleProvider)
   \<and> durationSeconds (reconcile (Some sampleProvider) sampleState) = 4
   \<and> durationSeconds (reconcile (Some sampleProvider) sampleState)
       \<in> set (supportedDurations (capabilities sampleProvider))
   \<and> durationSeconds (reconcile (Some openDurationProvider) tenSecondState) = 8
   \<and> durationSeconds (reconcile (Some openDurationProvider) tenSecondState)
       \<le> maxDuration openDurationProvider"
  using reconcile_within_bounds [of sampleProvider sampleState]
    reconcile_within_bounds [of openDurationProvider tenSecondState]
    sampleProvider_declares sampleProvider_reconciled
  by simp

lemma reconcileNumberOfVideos_idem:
  "reconcileNumberOfVideos P (reconcileNumberOfVideos P x) = reconcileNumberOfVideos P x"
  by (simp add: reconcileNumberOfVideos_def min_def max_def)

lemma reconcileConditioningImage_idem:
  "reconcileConditioningImage P (reconcileConditioningImage P x) = reconcileConditioningImage P x"
  by (simp add: reconcileConditioningImage_def)

lemma reconcileNegativePrompt_idem:
  "reconcileNegativePrompt P (reconcileNegativePrompt P x) = reconcileNegativePrompt P x"
  by (simp add: reconcileNegativePrompt_def)

lemma reconcileAspectRatio_idem:
  "reconcileAspectRatio P (reconcileAspectRatio P x) = reconcileAspectRatio P x"
  by (cases "supportedAspectRatios P") (simp_all add: reconcileAspectRatio_def)

lemma reconcileDurationSeconds_idem:
  assumes "durationsWithinMaximum P"
  shows "reconcileDurationSeconds P (reconcileDurationSeconds P x) = reconcileDurationSeconds P x"
proof (cases "supportedDurations (capabilities P)")
  case Nil
  then show ?thesis by (simp add: reconcileDurationSeconds_def)
next
  case (Cons a as)
  from assms have within: "d \<le> maxDuration P" if "d \<in> set (a # as)" for d
    using that Cons by (auto simp add: durationsWithinMaximum_def list_all_iff)
  show ?thesis
  proof (cases "x \<in> set (a # as)")
    case True
    with within [of x] Cons show ?thesis
      by (simp add: reconcileDurationSeconds_def Let_def min_def)
  next
    case False
    with within [of a] Cons show ?thesis
      by (simp add: reconcileDurationSeconds_def Let_def min_def)
  qed
qed

text \<open>
  Claim C2, as stated, fails: when a provider declares the single discrete duration 10 and
  the maximum duration 8, a duration of 5 becomes 10 on the first pass and 8 on the second.
\<close>

theorem reconcile_twice_differs:
  "durationSeconds (reconcile (Some longDurationProvider) sampleState) = 10
   \<and> durationSeconds
       (reconcile (Some longDurationProvider) (reconcile (Some longDurationProvider) sampleState))
       = 8
   \<and> reconcile (Some longDurationProvider) (reconcile (Some longDurationProvider) sampleState)
       \<noteq> reconcile (Some longDurationProvider) sampleState"
proof -
  have first: "durationSeconds (reconcile (Some longDurationProvider) sampleState) = 10"
    by (simp add: reconcile_Some_fields reconcileDurationSeconds_def
        longDurationProvider_def sampleProvider_def sampleState_def)
  have second: "durationSeconds
       (reconcile (Some longDurationProvider) (reconcile (Some longDurationProvider) sampleState))
       = 8"
    unfolding reconcile_Some_fields(5) [of longDurationProvider "reconcile _ _"] first
    by (simp add: reconcileDurationSeconds_def longDurationProvider_def sampleProvider_def)
  from first second show ?thesis by auto
qed

text \<open>
  Claim C2, amended. For every provider \<open>P\<close> whose declared discrete durations are all at
  most \<open>P.maxDuration\<close> (in particular when it declares none) and every form state \<open>s\<close>,
  reconciling a second time against \<open>P\<close> changes nothing:
  \<open>reconcile(P, reconcile(P, s)) = reconcile(P, s)\<close>.
\<close>

theorem reconcile_idempotent:
  assumes "durationsWithinMaximum P"
  shows "reconcile (Some P) (reconcile (Some P) s) = reconcile (Some P) s"
  by (simp add: reconcile_def reconcileNumberOfVideos_idem reconcileConditioningImage_idem
      reconcileNegativePrompt_idem reconcileAspectRatio_idem
      reconcileDurationSeconds_idem [OF assms])

theorem reconcile_idempotent_witness:
  "durationsWithinMaximum sampleProvider
   \<and> reconcile (Some sampleProvider) (reconcile (Some sampleProvider) sampleState)
       = reconcile (Some sampleProvider) sampleState
   \<and> durationSeconds (reconcile (Some sampleProvider) sampleState) = 4"
proof -
  have h: "durationsWithinMaximum sampleProvider"
    by (simp add: durationsWithinMaximum_def sampleProvider_def)
  have "durationSeconds (reconcile (Some sampleProvider) sampleState) = 4"
    by (simp add: reconcile_Some_fields reconcileDurationSeconds_def
        sampleProvider_def sampleState_def)
  with h reconcile_idempotent [OF h, of sampleState] show ?thesis by simp
qed

text \<open>
  Claim C3. Reconciling against a provider \<open>P\<close> sets the reference image to null when
  \<open>P\<close> does not support a conditioning image and leaves it as it was otherwise; it sets the
  negative prompt to the empty string when \<open>P\<close> does not support negative prompts and
  leaves it as it was otherwise.
\<close>

theorem reconcile_image_and_negative_prompt:
  "conditioningImage (reconcile (Some P) s) =
     (if supportsConditioningImage (capabilities P) then conditioningImage s else None)
   \<and> negativePrompt (reconcile (Some P) s) =
     (if supportsNegativePrompt (capabilities P) then negativePrompt s else [])"
  by (simp add: reconcile_Some_fields reconcileConditioningImage_def reconcileNegativePrompt_def)

section \<open>Cost estimate: the two products\<close>

text \<open>
  Claim C4. For every provider \<open>P\<close>, duration \<open>d\<close> and requested count \<open>n\<close>, with \<open>\<times>\<close> the
  product as the platform computes it: the per-video estimate is \<open>P.costPerSecond \<times> d\<close>, and
  it is 0 when no provider is selected; the total is the per-video estimate \<open>\<times> max(1, n)\<close>,
  hence the per-video estimate \<open>\<times> n\<close> for every \<open>n \<ge> 1\<close> and \<open>\<times> 1\<close> for every \<open>n \<le> 1\<close>. This
  equation is what the specification calls linear in duration and count; no additivity
  over sums is stated, since the products round.
\<close>

theorem cost_estimate:
  "estimatedCostPerVideo mul (Some P) d = mul (costPerSecond (pricing P)) d
   \<and> estimatedCostPerVideo mul None d = 0
   \<and> estimatedTotalCost mul sp d n = mul (estimatedCostPerVideo mul sp d) (max 1 n)
   \<and> (1 \<le> n \<longrightarrow> estimatedTotalCost mul sp d n = mul (estimatedCostPerVideo mul sp d) n)
   \<and> (n \<le> 1 \<longrightarrow> estimatedTotalCost mul sp d n = mul (estimatedCostPerVideo mul sp d) 1)"
  by (simp add: estimatedTotalCost_def estimatedCostPerVideo_def calculateCost_def
      max_absorb1 max_absorb2)

text \<open>
  The instance below takes 0.25 dollars per second, 8 seconds and the counts 4 and 0: the
  products 0.25 \<times> 8, 2 \<times> 4 and 2 \<times> 1 are exact in binary64, so the exact product of
  rationals is the platform's product on them.
\<close>

theorem cost_estimate_witness:
  "(1::rat) \<le> 4 \<and> (0::rat) \<le> 1
   \<and> estimatedCostPerVideo (*) (Some sampleProvider) 8 = 2
   \<and> estimatedTotalCost (*) (Some sampleProvider) 8 4
       = estimatedCostPerVideo (*) (Some sampleProvider) 8 * 4
   \<and> estimatedTotalCost (*) (Some sampleProvider) 8 4 = 8
   \<and> estimatedTotalCost (*) (Some sampleProvider) 8 0 = 2
   \<and> estimatedCostPerVideo (*) None 8 = 0"
  using cost_estimate [of "(*)" sampleProvider 8 "Some sampleProvider" 4]
    cost_estimate [of "(*)" sampleProvider 8 "Some sampleProvider" 0]
  by (simp add: estimatedCostPerVideo_def calculateCost_def sampleProvider_def)

section \<open>The generation request: rejection and failure\<close>

lemma handleGenerate_submitted:
  assumes "trim (prompt s) \<noteq> []"
  shows "handleGenerate formatCurrency s t0 outcome t1 =
     (handleGenerate_finish formatCurrency
        \<lparr>sub_provider = provider s, sub_startedAt = t0, sub_request = buildFormData s\<rparr>
        outcome t1
        (s\<lparr>isGenerating := True, message := js ''Generating...'', videos := [],
           generationMeta :=
             Some \<lparr>meta_provider = provider s, meta_cost = None, meta_startedAt = Some t0,
                   meta_completedAt = None, meta_error = None\<rparr>\<rparr>),
      [buildFormData s])"
  using assms by (simp add: handleGenerate_def handleGenerate_start_def)

lemma sampleState_prompt_not_blank: "trim (prompt sampleState) \<noteq> []"
  by (simp add: sampleState_def trim_def js_def is_space_def)

text \<open>
  Claim C6. When the prompt is empty after trimming, \<open>handleGenerate\<close> only sets the
  message that asks for a prompt and returns: \<open>isGenerating\<close> keeps its value (false when
  the handler can be invoked), the videos and the generation metadata are as before, no
  start time is recorded and no request is sent.
\<close>

theorem empty_prompt_rejected:
  assumes "trim (prompt s) = []"
  shows "handleGenerate_start s t0 =
           Rejected (s\<lparr>message := js ''Please enter a prompt before generating.''\<rparr>)
   \<and> handleGenerate formatCurrency s t0 outcome t1 =
           (s\<lparr>message := js ''Please enter a prompt before generating.''\<rparr>, [])
   \<and> isGenerating (fst (handleGenerate formatCurrency s t0 outcome t1)) = isGenerating s
   \<and> videos (fst (handleGenerate formatCurrency s t0 outcome t1)) = videos s
   \<and> generationMeta (fst (handleGenerate formatCurrency s t0 outcome t1)) = generationMeta s
   \<and> snd (handleGenerate formatCurrency s t0 outcome t1) = []"
  using assms by (simp add: handleGenerate_def handleGenerate_start_def)

theorem empty_prompt_rejected_witness:
  "trim (prompt blankPromptState) = []
   \<and> \<not> isGenerating blankPromptState
   \<and> \<not> isGenerating (fst (handleGenerate (\<lambda>c. []) blankPromptState 100 (FetchRejects OtherValue) 200))
   \<and> message (fst (handleGenerate (\<lambda>c. []) blankPromptState 100 (FetchRejects OtherValue) 200))
       = js ''Please enter a prompt before generating.''
   \<and> videos (fst (handleGenerate (\<lambda>c. []) blankPromptState 100 (FetchRejects OtherValue) 200))
       = [js ''a.mp4'']
   \<and> snd (handleGenerate (\<lambda>c. []) blankPromptState 100 (FetchRejects OtherValue) 200) = []"
proof -
  have h: "trim (prompt blankPromptState) = []"
    by (simp add: blankPromptState_def trim_def js_def is_space_def)
  show ?thesis
    using h empty_prompt_rejected [OF h, of 100 "\<lambda>c. []" "FetchRejects OtherValue" 200]
    by (simp add: blankPromptState_def sampleState_def initialState_def)
qed

text \<open>
  Claim C7. Whatever the status outside 200 to 299 and whatever the body, a submitted
  request that gets such a response ends in the failed state: the generation metadata is
  replaced by the provider id, the start time, the completion time and the error message
  (no cost), \<open>isGenerating\<close> is false again, and the failure message is shown. The last
  conjunct says the same of the part after the \<open>await\<close> on any state of that moment.
\<close>

theorem failed_response:
  assumes "trim (prompt s) \<noteq> []" and "\<not> response_ok st"
  shows "generationMeta (fst (handleGenerate formatCurrency s t0 (Response st b) t1)) =
           Some \<lparr>meta_provider = provider s, meta_cost = None, meta_startedAt = Some t0,
                 meta_completedAt = Some t1,
                 meta_error = Some (js ''Failed to generate video'')\<rparr>
   \<and> isGenerating (fst (handleGenerate formatCurrency s t0 (Response st b) t1)) = False
   \<and> message (fst (handleGenerate formatCurrency s t0 (Response st b) t1)) =
           js ''Failed to generate video. Please try again.''
   \<and> videos (fst (handleGenerate formatCurrency s t0 (Response st b) t1)) = []
   \<and> handleGenerate_finish formatCurrency sub (Response st b) t1 s2 =
           s2\<lparr>generationMeta :=
                 Some \<lparr>meta_provider = sub_provider sub, meta_cost = None,
                       meta_startedAt = Some (sub_startedAt sub), meta_completedAt = Some t1,
                       meta_error = Some (js ''Failed to generate video'')\<rparr>,
               message := js ''Failed to generate video. Please try again.'',
               isGenerating := False\<rparr>"
  using assms
  by (simp add: handleGenerate_submitted handleGenerate_finish_def readResponse_def
      errorMessage_def)

theorem failed_response_witness:
  "trim (prompt sampleState) \<noteq> [] \<and> \<not> response_ok 500
   \<and> generationMeta
       (fst (handleGenerate (\<lambda>c. []) sampleState 100 (Response 500 (BodyNull [])) 250)) =
         Some \<lparr>meta_provider = js ''veo-3'', meta_cost = None, meta_startedAt = Some 100,
               meta_completedAt = Some 250,
               meta_error = Some (js ''Failed to generate video'')\<rparr>
   \<and> isGenerating
       (fst (handleGenerate (\<lambda>c. []) sampleState 100 (Response 500 (BodyNull [])) 250)) = False"
proof -
  have h: "\<not> response_ok 500" by (simp add: response_ok_def)
  show ?thesis
    using sampleState_prompt_not_blank h
      failed_response [OF sampleState_prompt_not_blank h, of "\<lambda>c. []" 100 "BodyNull []" 250]
    by (simp add: sampleState_def initialState_def)
qed

section \<open>The route middleware: the decision\<close>

text \<open>
  Once the cookie cache has been read: a request for a public path passes whatever the
  session; any other request is redirected to \<open>/auth/signin\<close> without a logged-in session
  and passes with one.
\<close>

lemma proxy_after_cookie_read:
  "(publicPath pathname \<longrightarrow> proxy (CookieReadValue session) pathname = Inr Next)
   \<and> (\<not> publicPath pathname \<and> \<not> isLoggedIn session
      \<longrightarrow> proxy (CookieReadValue session) pathname = Inr (Redirect (js ''/auth/signin'')))
   \<and> (\<not> publicPath pathname \<and> isLoggedIn session
      \<longrightarrow> proxy (CookieReadValue session) pathname = Inr Next)"
  by (auto simp add: proxy_def publicPath_def)

lemma proxy_after_cookie_read_examples:
  "proxy (CookieReadValue None) (js ''/'') = Inr Next"
  "proxy (CookieReadValue None) (js ''/auth/signin'') = Inr Next"
  "proxy (CookieReadValue None) (js ''/api/generate-video'') = Inr (Redirect (js ''/auth/signin''))"
  "proxy (CookieReadValue (Some \<lparr>user = Some (js ''ada'')\<rparr>)) (js ''/api/generate-video'')
     = Inr Next"
  by (simp_all add: proxy_def isLoggedIn_def js_def)

text \<open>
  Claim C8 says that a request for the root path passes regardless of the session. The
  middleware reads the cookie cache before it looks at the path and does not guard the
  read: when the read throws, the request for \<open>/\<close> (for any path) does not pass, the call
  fails with the thrown value.
\<close>

theorem proxy_fails_when_cookie_read_throws:
  "publicPath (js ''/'')
   \<and> proxy (CookieReadThrows t) (js ''/'') = Inl t
   \<and> proxy (CookieReadThrows t) (js ''/'') \<noteq> Inr Next
   \<and> proxy (CookieReadThrows t) pathname = Inl t"
  by (simp add: proxy_def publicPath_def)

section \<open>The generation request: payload and success\<close>

lemma buildFormData_keys:
  "map fst (buildFormData s) =
     [js ''prompt'', js ''negativePrompt'', js ''numberOfVideos'', js ''aspectRatio'',
      js ''durationSeconds'', js ''provider'']
     @ (if provider s = js ''veo-3''
        then [js ''veo3Model'', js ''veo3Resolution'', js ''veo3Audio''] else [])
     @ (if conditioningImage s = None then [] else [js ''conditioningImage''])"
  by (simp add: buildFormData_def split: option.split)

lemma buildFormData_no_selector_keys:
  "js ''resolution'' \<notin> set (map fst (buildFormData s))"
  "js ''fps'' \<notin> set (map fst (buildFormData s))"
  unfolding buildFormData_keys by (simp_all add: js_def)


lemma buildFormData_values:
  "map_of (buildFormData s) (js ''prompt'') = Some (StringValue (prompt s))"
  "map_of (buildFormData s) (js ''negativePrompt'') = Some (StringValue (negativePrompt s))"
  "map_of (buildFormData s) (js ''numberOfVideos'') = Some (NumberString (numberOfVideos s))"
  "map_of (buildFormData s) (js ''aspectRatio'') = Some (StringValue (aspectRatio s))"
  "map_of (buildFormData s) (js ''durationSeconds'') = Some (NumberString (durationSeconds s))"
  "map_of (buildFormData s) (js ''provider'') = Some (StringValue (provider s))"
  by (simp_all add: buildFormData_def js_def)

lemma buildFormData_veo3_values:
  "map_of (buildFormData s) (js ''veo3Model'') =
     (if provider s = js ''veo-3'' then Some (StringValue (veo3Model s)) else None)"
  "map_of (buildFormData s) (js ''veo3Resolution'') =
     (if provider s = js ''veo-3'' then Some (StringValue (veo3Resolution s)) else None)"
  "map_of (buildFormData s) (js ''veo3Audio'') =
     (if provider s = js ''veo-3'' then Some (StringValue (boolToString (veo3Audio s))) else None)"
  "map_of (buildFormData s) (js ''conditioningImage'') = map_option FileValue (conditioningImage s)"
  by (simp_all add: buildFormData_def js_def split: option.split)

lemma handleGenerate_sends:
  "trim (prompt s) \<noteq> []
   \<longrightarrow> snd (handleGenerate formatCurrency s t0 outcome t1) = [buildFormData s]"
  by (simp add: handleGenerate_submitted)

text \<open>
  Claim C9. The request carries, in this order, exactly the keys \<open>prompt\<close>,
  \<open>negativePrompt\<close>, \<open>numberOfVideos\<close>, \<open>aspectRatio\<close>, \<open>durationSeconds\<close> and \<open>provider\<close>
  with the values of the form, then \<open>veo3Model\<close>, \<open>veo3Resolution\<close> and \<open>veo3Audio\<close> if and
  only if the provider id is \<open>veo-3\<close>, then \<open>conditioningImage\<close> if and only if an image is
  present; no key for the generic resolution or frame-rate selector occurs; and a
  submission sends this payload and nothing else.
\<close>

theorem request_payload:
  "map fst (buildFormData s) =
     [js ''prompt'', js ''negativePrompt'', js ''numberOfVideos'', js ''aspectRatio'',
      js ''durationSeconds'', js ''provider'']
     @ (if provider s = js ''veo-3''
        then [js ''veo3Model'', js ''veo3Resolution'', js ''veo3Audio''] else [])
     @ (if conditioningImage s = None then [] else [js ''conditioningImage''])
   \<and> map_of (buildFormData s) (js ''prompt'') = Some (StringValue (prompt s))
   \<and> map_of (buildFormData s) (js ''negativePrompt'') = Some (StringValue (negativePrompt s))
   \<and> map_of (buildFormData s) (js ''numberOfVideos'') = Some (NumberString (numberOfVideos s))
   \<and> map_of (buildFormData s) (js ''aspectRatio'') = Some (StringValue (aspectRatio s))
   \<and> map_of (buildFormData s) (js ''durationSeconds'') = Some (NumberString (durationSeconds s))
   \<and> map_of (buildFormData s) (js ''provider'') = Some (StringValue (provider s))
   \<and> map_of (buildFormData s) (js ''veo3Model'') =
       (if provider s = js ''veo-3'' then Some (StringValue (veo3Model s)) else None)
   \<and> map_of (buildFormData s) (js ''veo3Resolution'') =
       (if provider s = js ''veo-3'' then Some (StringValue (veo3Resolution s)) else None)
   \<and> map_of (buildFormData s) (js ''veo3Audio'') =
       (if provider s = js ''veo-3'' then Some (StringValue (boolToString (veo3Audio s)))
        else None)
   \<and> map_of (buildFormData s) (js ''conditioningImage'') =
       map_option FileValue (conditioningImage s)
   \<and> js ''resolution'' \<notin> set (map fst (buildFormData s))
   \<and> js ''fps'' \<notin> set (map fst (buildFormData s))
   \<and> (trim (prompt s) \<noteq> []
      \<longrightarrow> snd (handleGenerate formatCurrency s t0 outcome t1) = [buildFormData s])"
  by (intro conjI buildFormData_keys buildFormData_values buildFormData_veo3_values
      buildFormData_no_selector_keys handleGenerate_sends)

lemma sampleState_keys:
  "map fst (buildFormData sampleState) =
       [js ''prompt'', js ''negativePrompt'', js ''numberOfVideos'', js ''aspectRatio'',
        js ''durationSeconds'', js ''provider'', js ''veo3Model'', js ''veo3Resolution'',
        js ''veo3Audio'', js ''conditioningImage'']"
  unfolding buildFormData_keys by (simp add: sampleState_def initialState_def)

theorem request_payload_witness:
  "trim (prompt sampleState) \<noteq> []
   \<and> snd (handleGenerate (\<lambda>c. []) sampleState 100 (FetchRejects OtherValue) 250)
       = [buildFormData sampleState]
   \<and> map fst (buildFormData sampleState) =
       [js ''prompt'', js ''negativePrompt'', js ''numberOfVideos'', js ''aspectRatio'',
        js ''durationSeconds'', js ''provider'', js ''veo3Model'', js ''veo3Resolution'',
        js ''veo3Audio'', js ''conditioningImage'']"
proof -
  from request_payload [of sampleState "\<lambda>c. []" 100 "FetchRejects OtherValue" 250]
  have "trim (prompt sampleState) \<noteq> []
        \<longrightarrow> snd (handleGenerate (\<lambda>c. []) sampleState 100 (FetchRejects OtherValue) 250)
            = [buildFormData sampleState]"
    by blast
  with sampleState_prompt_not_blank sampleState_keys show ?thesis by blast
qed

lemma handleGenerate_succeeded:
  assumes "trim (prompt s) \<noteq> []" and "response_ok st"
  shows "message (fst (handleGenerate formatCurrency s t0 (Response st (BodyValue r)) t1)) =
           successMessage formatCurrency (result_cost r)"
    and "generationMeta (fst (handleGenerate formatCurrency s t0 (Response st (BodyValue r)) t1)) =
           Some \<lparr>meta_provider =
                   (if truthyString (result_provider r) then the (result_provider r)
                    else provider s),
                 meta_cost = result_cost r, meta_startedAt = Some t0,
                 meta_completedAt = Some t1, meta_error = None\<rparr>"
    and "videos (fst (handleGenerate formatCurrency s t0 (Response st (BodyValue r)) t1)) =
           (case result_videos r of None \<Rightarrow> [] | Some vs \<Rightarrow> vs)"
    and "isGenerating (fst (handleGenerate formatCurrency s t0 (Response st (BodyValue r)) t1)) = False"
  using assms
  by (simp_all add: handleGenerate_submitted handleGenerate_finish_def readResponse_def)

lemma successMessage_cases:
  "successMessage formatCurrency (Some 0) = js ''Video generated successfully!''"
  "successMessage formatCurrency None = js ''Video generated successfully!''"
  "c \<noteq> 0 \<Longrightarrow> successMessage formatCurrency (Some c) =
     js ''Video generated successfully '' @ [0x2022] @ js '' '' @ formatCurrency c"
  by (simp_all add: successMessage_def truthyNumber_def)

lemma actualCostLine_cases:
  "meta_cost m = Some 0 \<Longrightarrow> actualCostLine formatCurrency m = NumberText 0"
  "meta_cost m = None \<Longrightarrow> actualCostLine formatCurrency m = Nothing"
  "meta_cost m = Some c \<Longrightarrow> c \<noteq> 0 \<Longrightarrow>
     actualCostLine formatCurrency m = Element (js ''Actual cost: '' @ formatCurrency c)"
  by (simp_all add: actualCostLine_def)

text \<open>
  Claim C10. After a successful response to a submitted request: when the reported cost
  is exactly 0, the metadata records the cost 0, the message is the plain success message
  and the place of the "Actual cost" line holds the bare number instead of the line (inside
  the panel, which is itself shown for a completion time other than 0); the
  message with the formatted amount and the "Actual cost" line appear exactly for a
  reported cost other than 0; without a reported cost the message is the plain one and
  nothing is rendered for the cost.
\<close>

theorem zero_cost_success:
  assumes "trim (prompt s) \<noteq> []" and "response_ok st"
  shows "(result_cost r = Some 0 \<longrightarrow>
            map_option meta_cost
              (generationMeta (fst (handleGenerate formatCurrency s t0 (Response st (BodyValue r)) t1)))
              = Some (Some 0)
          \<and> message (fst (handleGenerate formatCurrency s t0 (Response st (BodyValue r)) t1))
              = js ''Video generated successfully!''
          \<and> map_option (actualCostLine formatCurrency)
              (generationMeta (fst (handleGenerate formatCurrency s t0 (Response st (BodyValue r)) t1)))
              = Some (NumberText 0)
          \<and> lastGenerationCost formatCurrency
              (generationMeta (fst (handleGenerate formatCurrency s t0 (Response st (BodyValue r)) t1)))
              = (if t1 = 0 then NumberText 0 else Element (NumberText 0)))
   \<and> (\<forall>c. result_cost r = Some c \<and> c \<noteq> 0 \<longrightarrow>
          message (fst (handleGenerate formatCurrency s t0 (Response st (BodyValue r)) t1))
              = js ''Video generated successfully '' @ [0x2022] @ js '' '' @ formatCurrency c
          \<and> map_option (actualCostLine formatCurrency)
              (generationMeta (fst (handleGenerate formatCurrency s t0 (Response st (BodyValue r)) t1)))
              = Some (Element (js ''Actual cost: '' @ formatCurrency c)))
   \<and> (result_cost r = None \<longrightarrow>
          message (fst (handleGenerate formatCurrency s t0 (Response st (BodyValue r)) t1))
              = js ''Video generated successfully!''
          \<and> map_option (actualCostLine formatCurrency)
              (generationMeta (fst (handleGenerate formatCurrency s t0 (Response st (BodyValue r)) t1)))
              = Some Nothing)"
  unfolding handleGenerate_succeeded [OF assms]
  by (auto simp add: successMessage_cases actualCostLine_cases lastGenerationCost_def)

theorem zero_cost_success_witness:
  "trim (prompt sampleState) \<noteq> [] \<and> response_ok 200
   \<and> result_cost zeroCostResult = Some 0
   \<and> message (fst (handleGenerate (\<lambda>c. js ''$'') sampleState 100
         (Response 200 (BodyValue zeroCostResult)) 250)) = js ''Video generated successfully!''
   \<and> map_option meta_cost (generationMeta (fst (handleGenerate (\<lambda>c. js ''$'') sampleState 100
         (Response 200 (BodyValue zeroCostResult)) 250))) = Some (Some 0)
   \<and> map_option (actualCostLine (\<lambda>c. js ''$'')) (generationMeta (fst (handleGenerate
         (\<lambda>c. js ''$'') sampleState 100 (Response 200 (BodyValue zeroCostResult)) 250)))
       = Some (NumberText 0)
   \<and> result_cost pricedResult = Some (3 / 2)
   \<and> map_option (actualCostLine (\<lambda>c. js ''$'')) (generationMeta (fst (handleGenerate
         (\<lambda>c. js ''$'') sampleState 100 (Response 200 (BodyValue pricedResult)) 250)))
       = Some (Element (js ''Actual cost: '' @ js ''$''))"
proof -
  have ok: "response_ok 200" by (simp add: response_ok_def)
  have zero: "result_cost zeroCostResult = Some 0" by (simp add: zeroCostResult_def)
  have priced: "result_cost pricedResult = Some (3 / 2) \<and> (3 / 2 :: rat) \<noteq> 0"
    by (simp add: pricedResult_def)
  show ?thesis
    using sampleState_prompt_not_blank ok zero priced
      zero_cost_success [OF sampleState_prompt_not_blank ok, of zeroCostResult "\<lambda>c. js ''$''" 100 250]
      zero_cost_success [OF sampleState_prompt_not_blank ok, of pricedResult "\<lambda>c. js ''$''" 100 250]
    by blast
qed

section \<open>Prompt insights: word count and tiers\<close>

lemma wordRuns_word_append:
  assumes "\<forall>c\<in>set w. \<not> is_space c"
  shows "wordRuns b (w @ r) = (if w \<noteq> [] \<and> \<not> b then 1 else 0) + wordRuns (b \<or> w \<noteq> []) r"
  using assms by (induction w arbitrary: b) auto

lemma wordRuns_spaces:
  assumes "\<forall>c\<in>set t. is_space c"
  shows "wordRuns b t = 0"
  using assms by (induction t arbitrary: b) auto

lemma wordRuns_append_spaces:
  assumes "\<forall>c\<in>set t. is_space c"
  shows "wordRuns b (s @ t) = wordRuns b s"
  using assms by (induction s arbitrary: b) (auto simp add: wordRuns_spaces)

lemma wordRuns_dropWhile_space:
  "wordRuns False (dropWhile is_space s) = wordRuns False s"
  by (induction s) auto

lemma wordRuns_trim: "wordRuns False (trim s) = wordRuns False s"
proof -
  define u where "u = dropWhile is_space s"
  define t where "t = rev (takeWhile is_space (rev u))"
  have "trim s @ t = rev (takeWhile is_space (rev u) @ dropWhile is_space (rev u))"
    by (simp only: trim_def u_def t_def rev_append)
  also have "\<dots> = u" by simp
  finally have split: "u = trim s @ t" by (rule sym)
  have "\<forall>c\<in>set t. is_space c"
    by (auto simp add: t_def dest: set_takeWhileD)
  then have "wordRuns False (trim s @ t) = wordRuns False (trim s)"
    by (rule wordRuns_append_spaces)
  with split have "wordRuns False u = wordRuns False (trim s)" by simp
  then show ?thesis by (simp add: u_def wordRuns_dropWhile_space)
qed

lemma splitWhitespace_count:
  "length (filter (\<lambda>w. w \<noteq> []) (splitWhitespace s)) = wordRuns False s"
proof (induction s rule: splitWhitespace.induct)
  case (1 s)
  let ?w = "takeWhile (\<lambda>c. \<not> is_space c) s"
  let ?d = "dropWhile (\<lambda>c. \<not> is_space c) s"
  have s: "s = ?w @ ?d" by simp
  have w: "\<forall>c\<in>set ?w. \<not> is_space c" by (auto dest: set_takeWhileD)
  show ?case
  proof (cases ?d)
    case Nil
    then have "splitWhitespace s = [s]"
      by (subst splitWhitespace.simps) (simp only: list.case)
    moreover from Nil s have "?w = s" by simp
    with w have "wordRuns False (s @ []) = (if s \<noteq> [] then 1 else 0)"
      by (simp only: wordRuns_word_append [of s False "[]"]) simp
    ultimately show ?thesis by simp
  next
    case (Cons x rest)
    then have split: "splitWhitespace s = ?w # splitWhitespace (dropWhile is_space rest)"
      by (subst splitWhitespace.simps) (simp only: list.case)
    from Cons have x: "is_space x"
      using hd_dropWhile [of "\<lambda>c. \<not> is_space c" s] by simp
    have "wordRuns False s = wordRuns False (?w @ x # rest)"
      using s Cons by simp
    also have "\<dots> = (if ?w \<noteq> [] then 1 else 0) + wordRuns (?w \<noteq> []) (x # rest)"
      using wordRuns_word_append [OF w, of False "x # rest"] by simp
    also have "wordRuns (?w \<noteq> []) (x # rest) = wordRuns False rest"
      using x by simp
    finally have runs: "wordRuns False s = (if ?w \<noteq> [] then 1 else 0) + wordRuns False rest" .
    have "length (filter (\<lambda>w. w \<noteq> []) (splitWhitespace (dropWhile is_space rest)))
          = wordRuns False rest"
      using "1.IH" [OF Cons] by (simp add: wordRuns_dropWhile_space)
    with split runs show ?thesis by simp
  qed
qed

lemma countWords_wordRuns: "countWords p = wordRuns False p"
proof (cases "trim p = []")
  case True
  with wordRuns_trim [of p] have "wordRuns False p = 0" by simp
  with True show ?thesis by (simp add: countWords_def)
next
  case False
  then show ?thesis by (simp add: countWords_def Let_def splitWhitespace_count wordRuns_trim)
qed

lemma promptInsights_words: "words (promptInsights p) = countWords p"
  by (simp add: promptInsights_def Let_def)

lemma promptInsights_score:
  "score (promptInsights p) =
     (if countWords p = 0 then 0 else if countWords p < 12 then 1
      else if countWords p < 30 then 2 else 3)"
  by (simp add: promptInsights_def Let_def)

text \<open>
  Claim C5. The insight depends on the prompt text only. Its word count is the number of
  maximal runs of non-whitespace code units of the prompt (what trimming, splitting on
  whitespace and dropping empty pieces leaves), and the tier follows the count by fixed
  thresholds: 0 words give tier 0, 1 to 11 tier 1, 12 to 29 tier 2, 30 or more tier 3,
  each with its own label. So a prompt with no more words than another has no higher tier.
\<close>

theorem promptInsights_tiers:
  "words (promptInsights p) = wordRuns False p
   \<and> (words (promptInsights p) = 0
      \<longrightarrow> score (promptInsights p) = 0
          \<and> quality (promptInsights p) = js ''Add a descriptive prompt'')
   \<and> (1 \<le> words (promptInsights p) \<and> words (promptInsights p) \<le> 11
      \<longrightarrow> score (promptInsights p) = 1 \<and> quality (promptInsights p) = js ''Needs more detail'')
   \<and> (12 \<le> words (promptInsights p) \<and> words (promptInsights p) \<le> 29
      \<longrightarrow> score (promptInsights p) = 2 \<and> quality (promptInsights p) = js ''Great start'')
   \<and> (30 \<le> words (promptInsights p)
      \<longrightarrow> score (promptInsights p) = 3 \<and> quality (promptInsights p) = js ''Production ready'')
   \<and> (words (promptInsights p) \<le> words (promptInsights q)
      \<longrightarrow> score (promptInsights p) \<le> score (promptInsights q))"
proof -
  have "words (promptInsights p) = wordRuns False p"
    by (simp add: promptInsights_words countWords_wordRuns)
  moreover have "words (promptInsights p) = 0
      \<longrightarrow> score (promptInsights p) = 0
          \<and> quality (promptInsights p) = js ''Add a descriptive prompt''"
    by (simp add: promptInsights_def Let_def)
  moreover have "1 \<le> words (promptInsights p) \<and> words (promptInsights p) \<le> 11
      \<longrightarrow> score (promptInsights p) = 1 \<and> quality (promptInsights p) = js ''Needs more detail''"
    by (simp add: promptInsights_def Let_def)
  moreover have "12 \<le> words (promptInsights p) \<and> words (promptInsights p) \<le> 29
      \<longrightarrow> score (promptInsights p) = 2 \<and> quality (promptInsights p) = js ''Great start''"
    by (simp add: promptInsights_def Let_def)
  moreover have "30 \<le> words (promptInsights p)
      \<longrightarrow> score (promptInsights p) = 3 \<and> quality (promptInsights p) = js ''Production ready''"
    by (simp add: promptInsights_def Let_def)
  moreover have "words (promptInsights p) \<le> words (promptInsights q)
      \<longrightarrow> score (promptInsights p) \<le> score (promptInsights q)"
    by (simp add: promptInsights_words promptInsights_score)
  ultimately show ?thesis by blast
qed

lemma sample_word_counts:
  "wordRuns False [] = 0"
  "wordRuns False (js ''  a neon market  in the rain '') = 6"
  "wordRuns False (js ''a b c d e f g h i j k l'') = 12"
  "wordRuns False (js ''a b c d e f g h i j k l m n o p q r s t u v w x y z a b c d'') = 30"
  by (simp_all add: js_def is_space_def)

theorem promptInsights_tiers_witness:
  "words (promptInsights []) = 0 \<and> score (promptInsights []) = 0
   \<and> words (promptInsights (js ''  a neon market  in the rain '')) = 6
   \<and> score (promptInsights (js ''  a neon market  in the rain '')) = 1
   \<and> words (promptInsights (js ''a b c d e f g h i j k l'')) = 12
   \<and> score (promptInsights (js ''a b c d e f g h i j k l'')) = 2
   \<and> words (promptInsights
        (js ''a b c d e f g h i j k l m n o p q r s t u v w x y z a b c d'')) = 30
   \<and> score (promptInsights
        (js ''a b c d e f g h i j k l m n o p q r s t u v w x y z a b c d'')) = 3
   \<and> score (promptInsights (js ''  a neon market  in the rain ''))
       \<le> score (promptInsights (js ''a b c d e f g h i j k l''))"
  using promptInsights_tiers [of "[]" "[]"]
    promptInsights_tiers [of "js ''  a neon market  in the rain ''" "js ''a b c d e f g h i j k l''"]
    promptInsights_tiers [of "js ''a b c d e f g h i j k l''" "[]"]
    promptInsights_tiers
      [of "js ''a b c d e f g h i j k l m n o p q r s t u v w x y z a b c d''" "[]"]
  by (simp add: sample_word_counts)

end
